theory Spec2Isabelle
  imports
    Main
    "HOL-Library.Char_ord"
    "HOL-Library.List_Lexorder"
    "HOL-Library.Product_Lexorder"
begin

section \<open>The booking server (server.js)\<close>

text \<open>
  The server is an Express application with five JSON routes over two MongoDB
  collections (users and bookings). Each route handler is embedded as a function from
  the request and the store to a response and the store afterwards. The external
  libraries the handlers call (bcryptjs, jsonwebtoken, mongoose) are not part of the
  sources: the hashing and token functions are parameters of the model (record
  \<open>libs\<close>), and the random salt, the generated object identifier and the clock are
  inputs of each request (record \<open>env\<close>). Every theorem about a handler therefore
  holds for whatever these libraries compute. The two collections are lists of
  documents; the store is taken to be available, so the only store errors are a failed
  validation and a duplicate key.
\<close>

subsection \<open>Documents, requests and responses\<close>

text \<open>userSchema and bookingSchema; \<open>_id\<close> is the generated ObjectId.\<close>

record user =
  u_id :: nat
  u_accountName :: string
  u_email :: string
  u_password :: string

record booking =
  bk_id :: nat
  bk_date :: string
  bk_time :: string
  bk_service :: string
  bk_userId :: nat

record db =
  users :: "user list"
  bookings :: "booking list"

text \<open>The object given to \<open>jwt.sign\<close> in POST /signin and handed back by \<open>jwt.verify\<close>.\<close>

record jwt_payload =
  p_userId :: nat
  p_email :: string
  p_accountName :: string

text \<open>
  The parsed JSON body: each field the handlers destructure is a string or absent
  (\<open>undefined\<close>). \<open>req_user\<close> is \<open>req.user\<close>, unset until the middleware binds it.
\<close>

record req_body =
  b_accountName :: "string option"
  b_email :: "string option"
  b_password :: "string option"
  b_date :: "string option"
  b_time :: "string option"
  b_service :: "string option"

record request =
  authorization :: "string option"
  body :: req_body
  req_user :: "jwt_payload option"

datatype json =
    Message string
  | Created string nat
  | SignedIn string string
  | AccountName string
  | BookingCreated string booking
  | BookingList "booking list"

record response =
  status :: nat
  content :: json

datatype js_error =
    IllegalArguments | ValidationError | DuplicateKey | TypeError | SecretMissing

datatype jwt_error = JsonWebTokenError string | TokenExpiredError | NotBeforeError

text \<open>
  The library functions: \<open>bcrypt.hash(s, rounds)\<close> with its random salt made a
  third argument, \<open>bcrypt.compare(s, hash)\<close>, \<open>jwt.sign(payload, secret, {expiresIn})\<close>
  at a clock value, and \<open>jwt.verify(token, secret)\<close> at a clock value. Times are in
  seconds. \<open>JsonWebTokenError\<close> carries the library's message (a malformed token, an
  invalid signature, ...). \<open>findOne_undefined\<close> is what the store library returns for
  \<open>User.findOne({ email: undefined })\<close>: sent as \<open>null\<close> the filter matches no stored
  user, dropped it matches any, and which of the two happens is the library's choice.
\<close>

record libs =
  findOne_undefined :: "user list \<Rightarrow> user option"
  bcrypt_hash :: "string \<Rightarrow> nat \<Rightarrow> string \<Rightarrow> string"
  bcrypt_compare :: "string \<Rightarrow> string \<Rightarrow> bool"
  jwt_sign :: "jwt_payload \<Rightarrow> string \<Rightarrow> nat \<Rightarrow> nat \<Rightarrow> string"
  jwt_verify :: "string \<Rightarrow> string \<Rightarrow> nat \<Rightarrow> jwt_error + jwt_payload"

record env =
  now :: nat
  salt :: string
  oid :: nat

definition internal_error :: response where
  "internal_error = \<lparr>status = 500, content = Message ''Internal server error.''\<rparr>"

subsection \<open>The store\<close>

text \<open>
  \<open>User.findOne({ email })\<close>: the first user whose email is the given string; with an
  absent email, what the library returns for an undefined filter value.
\<close>

definition User_findOne :: "libs \<Rightarrow> string option \<Rightarrow> db \<Rightarrow> user option" where
  "User_findOne L e d =
     (case e of
        None \<Rightarrow> findOne_undefined L (users d)
      | Some s \<Rightarrow> find (\<lambda>u. u_email u = s) (users d))"

text \<open>
  \<open>User.create\<close>: the three paths are required strings (a required string path
  rejects the empty string as well), and the email carries a unique index.
\<close>

definition User_create ::
  "nat \<Rightarrow> string option \<Rightarrow> string option \<Rightarrow> string option \<Rightarrow> db \<Rightarrow> js_error + (user \<times> db)" where
  "User_create i accountName email password d =
     (case (accountName, email, password) of
        (Some a, Some e, Some h) \<Rightarrow>
          if a = [] \<or> e = [] \<or> h = [] then Inl ValidationError
          else if e \<in> set (map u_email (users d)) then Inl DuplicateKey
          else
            let u = \<lparr>u_id = i, u_accountName = a, u_email = e, u_password = h\<rparr>
            in Inr (u, d\<lparr>users := users d @ [u]\<rparr>)
      | _ \<Rightarrow> Inl ValidationError)"

text \<open>\<open>Booking.create\<close>: date, time, service and userId are required.\<close>

definition Booking_create ::
  "nat \<Rightarrow> string option \<Rightarrow> string option \<Rightarrow> string option \<Rightarrow> nat \<Rightarrow> db
     \<Rightarrow> js_error + (booking \<times> db)" where
  "Booking_create i date time service userId d =
     (case (date, time, service) of
        (Some dt, Some tm, Some sv) \<Rightarrow>
          if dt = [] \<or> tm = [] \<or> sv = [] then Inl ValidationError
          else
            let b = \<lparr>bk_id = i, bk_date = dt, bk_time = tm, bk_service = sv,
                     bk_userId = userId\<rparr>
            in Inr (b, d\<lparr>bookings := bookings d @ [b]\<rparr>)
      | _ \<Rightarrow> Inl ValidationError)"

text \<open>
  \<open>Booking.find({ userId }).sort({ date: 1, time: 1 })\<close>: the bookings of one owner,
  ascending by date and then time, both compared as byte strings.
\<close>

definition Booking_find_sorted :: "nat \<Rightarrow> db \<Rightarrow> booking list" where
  "Booking_find_sorted userId d =
     sort_key (\<lambda>b. (bk_date b, bk_time b)) (filter (\<lambda>b. bk_userId b = userId) (bookings d))"

subsection \<open>POST /signup and POST /signin\<close>

text \<open>
  Both bcryptjs calls reject a first argument that is not a string
  (\<open>Illegal arguments\<close>); on strings they return what the library computes.
\<close>

definition bcrypt_hash_js :: "libs \<Rightarrow> string option \<Rightarrow> nat \<Rightarrow> string \<Rightarrow> js_error + string" where
  "bcrypt_hash_js L password rounds sl =
     (case password of
        None \<Rightarrow> Inl IllegalArguments
      | Some p \<Rightarrow> Inr (bcrypt_hash L p rounds sl))"

definition bcrypt_compare_js :: "libs \<Rightarrow> string option \<Rightarrow> string \<Rightarrow> js_error + bool" where
  "bcrypt_compare_js L password h =
     (case password of
        None \<Rightarrow> Inl IllegalArguments
      | Some p \<Rightarrow> Inr (bcrypt_compare L p h))"

text \<open>
  The body of each handler's \<open>try\<close> block returns the exception (\<open>Inl\<close>) or the
  response and the store; \<open>catch_500\<close> is the \<open>catch\<close> block.
\<close>

definition catch_500 :: "db \<Rightarrow> js_error + (response \<times> db) \<Rightarrow> response \<times> db" where
  "catch_500 d r = (case r of Inl error \<Rightarrow> (internal_error, d) | Inr ok \<Rightarrow> ok)"

definition signup_try :: "libs \<Rightarrow> env \<Rightarrow> request \<Rightarrow> db \<Rightarrow> js_error + (response \<times> db)" where
  "signup_try L e req d =
     (let accountName = b_accountName (body req);
          email = b_email (body req);
          password = b_password (body req)
      in case User_findOne L email d of
           Some existingUser \<Rightarrow>
             Inr (\<lparr>status = 409, content = Message ''User already exists with this email.''\<rparr>, d)
         | None \<Rightarrow>
             (case bcrypt_hash_js L password 10 (salt e) of
                Inl error \<Rightarrow> Inl error
              | Inr hashedPassword \<Rightarrow>
                  (case User_create (oid e) accountName email (Some hashedPassword) d of
                     Inl error \<Rightarrow> Inl error
                   | Inr (newUser, d') \<Rightarrow>
                       Inr (\<lparr>status = 201,
                             content = Created ''Account created successfully!'' (u_id newUser)\<rparr>,
                            d'))))"

definition signup :: "libs \<Rightarrow> env \<Rightarrow> request \<Rightarrow> db \<Rightarrow> response \<times> db" where
  "signup L e req d = catch_500 d (signup_try L e req d)"

text \<open>\<open>expiresIn: '1h'\<close>, in seconds.\<close>

definition expiresIn :: nat where
  "expiresIn = 60 * 60"

text \<open>
  \<open>jwt.sign(payload, JWT_SECRET, { expiresIn: '1h' })\<close>: the library throws
  (\<open>secretOrPrivateKey must have a value\<close>) when the secret is falsy. \<open>JWT_SECRET\<close> is
  read from the environment without a check, so it may be unset or empty; the empty
  string stands for both.
\<close>

definition jwt_sign_js :: "libs \<Rightarrow> jwt_payload \<Rightarrow> string \<Rightarrow> nat \<Rightarrow> nat \<Rightarrow> js_error + string" where
  "jwt_sign_js L payload secretOrPrivateKey ttl clock =
     (if secretOrPrivateKey = [] then Inl SecretMissing
      else Inr (jwt_sign L payload secretOrPrivateKey ttl clock))"

definition signin_try ::
  "libs \<Rightarrow> string \<Rightarrow> env \<Rightarrow> request \<Rightarrow> db \<Rightarrow> js_error + (response \<times> db)" where
  "signin_try L JWT_SECRET e req d =
     (let email = b_email (body req);
          password = b_password (body req)
      in case User_findOne L email d of
           None \<Rightarrow> Inr (\<lparr>status = 401, content = Message ''Invalid credentials.''\<rparr>, d)
         | Some u \<Rightarrow>
             (case bcrypt_compare_js L password (u_password u) of
                Inl error \<Rightarrow> Inl error
              | Inr isPasswordValid \<Rightarrow>
                  if \<not> isPasswordValid
                  then Inr (\<lparr>status = 401, content = Message ''Invalid credentials.''\<rparr>, d)
                  else
                    (case jwt_sign_js L
                            \<lparr>p_userId = u_id u, p_email = u_email u,
                             p_accountName = u_accountName u\<rparr>
                            JWT_SECRET expiresIn (now e) of
                       Inl error \<Rightarrow> Inl error
                     | Inr token \<Rightarrow>
                         Inr (\<lparr>status = 200,
                               content = SignedIn ''Sign-in successful!'' token\<rparr>, d))))"

definition signin :: "libs \<Rightarrow> string \<Rightarrow> env \<Rightarrow> request \<Rightarrow> db \<Rightarrow> response \<times> db" where
  "signin L JWT_SECRET e req d = catch_500 d (signin_try L JWT_SECRET e req d)"

subsection \<open>The authentication middleware\<close>

text \<open>\<open>s.split(' ')\<close>: the pieces between single spaces; never the empty list.\<close>

fun split_space :: "string \<Rightarrow> string list" where
  "split_space [] = [Nil]"
| "split_space (c # cs) =
     (if c = CHR '' '' then [] # split_space cs
      else (case split_space cs of
              [] \<Rightarrow> [c # Nil]
            | p # ps \<Rightarrow> (c # p) # ps))"

text \<open>
  \<open>authHeader && authHeader.split(' ')[1]\<close>: an absent header gives \<open>undefined\<close>;
  the empty header is falsy and is itself the result; otherwise the second piece, or
  \<open>undefined\<close> when there is none.
\<close>

definition extract_token :: "string option \<Rightarrow> string option" where
  "extract_token authHeader =
     (case authHeader of
        None \<Rightarrow> None
      | Some h \<Rightarrow>
          if h = [] then Some []
          else (case split_space h of
                  p # t # ps \<Rightarrow> Some t
                | _ \<Rightarrow> None))"

definition authenticateToken ::
  "libs \<Rightarrow> string \<Rightarrow> env \<Rightarrow> (request \<Rightarrow> db \<Rightarrow> response \<times> db) \<Rightarrow> request \<Rightarrow> db
     \<Rightarrow> response \<times> db" where
  "authenticateToken L JWT_SECRET e next req d =
     (case extract_token (authorization req) of
        None \<Rightarrow> (\<lparr>status = 401, content = Message ''Authentication token required.''\<rparr>, d)
      | Some token \<Rightarrow>
          (case jwt_verify L token JWT_SECRET (now e) of
             Inl err \<Rightarrow> (\<lparr>status = 403, content = Message ''Invalid or expired token.''\<rparr>, d)
           | Inr u \<Rightarrow> next (req\<lparr>req_user := Some u\<rparr>) d))"

subsection \<open>The protected handlers and the routes\<close>

text \<open>Reading a property of an unset \<open>req.user\<close> throws a TypeError inside the \<open>try\<close>.\<close>

definition the_user :: "request \<Rightarrow> js_error + jwt_payload" where
  "the_user req = (case req_user req of None \<Rightarrow> Inl TypeError | Some u \<Rightarrow> Inr u)"

definition fetch_account_name :: "request \<Rightarrow> db \<Rightarrow> response \<times> db" where
  "fetch_account_name req d =
     catch_500 d
       (case the_user req of
          Inl error \<Rightarrow> Inl error
        | Inr u \<Rightarrow> Inr (\<lparr>status = 200, content = AccountName (p_accountName u)\<rparr>, d))"

definition create_booking :: "env \<Rightarrow> request \<Rightarrow> db \<Rightarrow> response \<times> db" where
  "create_booking e req d =
     catch_500 d
       (let date = b_date (body req);
            time = b_time (body req);
            service = b_service (body req)
        in case the_user req of
             Inl error \<Rightarrow> Inl error
           | Inr u \<Rightarrow>
               (case Booking_create (oid e) date time service (p_userId u) d of
                  Inl error \<Rightarrow> Inl error
                | Inr (newBooking, d') \<Rightarrow>
                    Inr (\<lparr>status = 201,
                          content = BookingCreated ''Booking created successfully!'' newBooking\<rparr>,
                         d')))"

definition list_bookings :: "request \<Rightarrow> db \<Rightarrow> response \<times> db" where
  "list_bookings req d =
     catch_500 d
       (case the_user req of
          Inl error \<Rightarrow> Inl error
        | Inr u \<Rightarrow>
            Inr (\<lparr>status = 200, content = BookingList (Booking_find_sorted (p_userId u) d)\<rparr>,
                 d))"

datatype route =
    PostSignup
  | PostSignin
  | GetFetchAccountName
  | PostBookings
  | GetBookings

fun protected :: "route \<Rightarrow> bool" where
  "protected PostSignup = False"
| "protected PostSignin = False"
| "protected GetFetchAccountName = True"
| "protected PostBookings = True"
| "protected GetBookings = True"

fun handler :: "libs \<Rightarrow> string \<Rightarrow> env \<Rightarrow> route \<Rightarrow> request \<Rightarrow> db \<Rightarrow> response \<times> db" where
  "handler L S e PostSignup = signup L e"
| "handler L S e PostSignin = signin L S e"
| "handler L S e GetFetchAccountName = fetch_account_name"
| "handler L S e PostBookings = create_booking e"
| "handler L S e GetBookings = list_bookings"

definition serve :: "libs \<Rightarrow> string \<Rightarrow> env \<Rightarrow> route \<Rightarrow> request \<Rightarrow> db \<Rightarrow> response \<times> db" where
  "serve L S e r req d =
     (if protected r then authenticateToken L S e (handler L S e r) req d
      else handler L S e r req d)"

text \<open>
  The stores the server can hold: the empty one at start, and whatever a served request
  leaves behind. A request arrives without \<open>req.user\<close>.
\<close>

definition empty_db :: db where
  "empty_db = \<lparr>users = [], bookings = []\<rparr>"

inductive reachable :: "libs \<Rightarrow> string \<Rightarrow> db \<Rightarrow> bool" for L :: libs and S :: string where
  start: "reachable L S empty_db"
| step: "reachable L S d \<Longrightarrow> req_user req = None \<Longrightarrow> reachable L S (snd (serve L S e r req d))"

subsection \<open>Vocabulary of the properties\<close>

text \<open>
  The two causes of a failed signin. Unknown email: the lookup by the request's email
  finds no account. Incorrect password: the lookup finds an account, and the request
  carries no password that the stored hash verifies, be it a wrong string or none at
  all. \<open>wrong_password_string\<close> is the narrower case of a password string that the
  stored hash does not verify.
\<close>

definition unknown_email :: "libs \<Rightarrow> request \<Rightarrow> db \<Rightarrow> bool" where
  "unknown_email L req d \<longleftrightarrow> User_findOne L (b_email (body req)) d = None"

definition incorrect_password :: "libs \<Rightarrow> request \<Rightarrow> db \<Rightarrow> bool" where
  "incorrect_password L req d \<longleftrightarrow>
     (case User_findOne L (b_email (body req)) d of
        None \<Rightarrow> False
      | Some u \<Rightarrow>
          (case b_password (body req) of
             None \<Rightarrow> True
           | Some p \<Rightarrow> \<not> bcrypt_compare L p (u_password u)))"

definition wrong_password_string :: "libs \<Rightarrow> request \<Rightarrow> db \<Rightarrow> bool" where
  "wrong_password_string L req d \<longleftrightarrow>
     (case (User_findOne L (b_email (body req)) d, b_password (body req)) of
        (Some u, Some p) \<Rightarrow> \<not> bcrypt_compare L p (u_password u)
      | _ \<Rightarrow> False)"

definition lacks_required_field :: "request \<Rightarrow> bool" where
  "lacks_required_field req \<longleftrightarrow>
     b_accountName (body req) = None \<or> b_email (body req) = None
     \<or> b_password (body req) = None"

text \<open>Non-decreasing in (date, time): earlier date, or the same date and no later time.
  Strings are ordered lexicographically by character code.\<close>

definition date_time_le :: "booking \<Rightarrow> booking \<Rightarrow> bool" where
  "date_time_le a b \<longleftrightarrow>
     bk_date a < bk_date b \<or> (bk_date a = bk_date b \<and> bk_time a \<le> bk_time b)"

definition unique_emails :: "db \<Rightarrow> bool" where
  "unique_emails d \<longleftrightarrow> distinct (map u_email (users d))"

subsection \<open>Session tokens as the specification describes them\<close>

text \<open>
  Modelled from the spec: the token library (jsonwebtoken) behind \<open>jwt.sign\<close> and
  \<open>jwt.verify\<close> is missing from the sources. A session token holds the identity
  fields and an absolute expiry, and is signed with the server secret; issuing sets the
  expiry \<open>expiresIn\<close> (the handler's \<open>'1h'\<close>) after the time of issuance; a token is
  valid only if its signature verifies against the server secret and the current time
  is before the expiry.
\<close>

record session_token =
  t_identity :: jwt_payload
  t_expiry :: nat
  t_signed_with :: string

datatype verdict = Identity jwt_payload | Invalid | Expired

text \<open>
  Modelled from the spec: \<open>issueToken\<close>, the signing half of the missing token
  library: identity fields plus an absolute expiry exactly one hour after issuance.
\<close>

definition issueToken :: "string \<Rightarrow> nat \<Rightarrow> jwt_payload \<Rightarrow> session_token" where
  "issueToken secret issued_at ident =
     \<lparr>t_identity = ident, t_expiry = issued_at + expiresIn, t_signed_with = secret\<rparr>"

text \<open>
  Modelled from the spec: \<open>verifyToken\<close>, the verifying half of the missing token
  library: it checks the signature and then the expiry, and returns the embedded
  identity, \<open>Invalid\<close> or \<open>Expired\<close>.
\<close>

definition verifyToken :: "string \<Rightarrow> nat \<Rightarrow> session_token \<Rightarrow> verdict" where
  "verifyToken secret clock tok =
     (if t_signed_with tok \<noteq> secret then Invalid
      else if clock < t_expiry tok then Identity (t_identity tok)
      else Expired)"

subsection \<open>A stand-in for the libraries, and sample data\<close>

text \<open>
  The concrete runs below need some hashing and token functions. This stand-in salts by
  prefixing, finds no user for an undefined email, and knows one token, \<open>alice.jwt\<close>;
  it rejects the empty token the way the token library does (\<open>jwt must be provided\<close>).
\<close>

definition alice_payload :: jwt_payload where
  "alice_payload = \<lparr>p_userId = 1, p_email = ''a@x.com'', p_accountName = ''Alice''\<rparr>"

definition stub_libs :: libs where
  "stub_libs =
     \<lparr>findOne_undefined = (\<lambda>us. None),
      bcrypt_hash = (\<lambda>p rounds sl. sl @ CHR ''$'' # p),
      bcrypt_compare = (\<lambda>p h. dropWhile (\<lambda>c. c \<noteq> CHR ''$'') h = CHR ''$'' # p),
      jwt_sign = (\<lambda>u secret ttl clock. ''alice.jwt''),
      jwt_verify = (\<lambda>token secret clock.
        if token = [] then Inl (JsonWebTokenError ''jwt must be provided'')
        else if token = ''alice.jwt'' then Inr alice_payload
        else Inl (JsonWebTokenError ''jwt malformed''))\<rparr>"

definition env0 :: env where
  "env0 = \<lparr>now = 1000, salt = ''NaCl'', oid = 1\<rparr>"

definition no_fields :: req_body where
  "no_fields = \<lparr>b_accountName = None, b_email = None, b_password = None,
                b_date = None, b_time = None, b_service = None\<rparr>"

definition bare_request :: request where
  "bare_request = \<lparr>authorization = None, body = no_fields, req_user = None\<rparr>"

definition with_header :: "string option \<Rightarrow> request" where
  "with_header h = bare_request\<lparr>authorization := h\<rparr>"

definition credentials :: "string option \<Rightarrow> string option \<Rightarrow> string option \<Rightarrow> request" where
  "credentials accountName email password =
     bare_request\<lparr>body := no_fields\<lparr>b_accountName := accountName, b_email := email,
                                       b_password := password\<rparr>\<rparr>"

definition alice :: user where
  "alice = \<lparr>u_id = 1, u_accountName = ''Alice'', u_email = ''a@x.com'',
            u_password = ''NaCl$pw1''\<rparr>"

definition sample_db :: db where
  "sample_db =
     \<lparr>users = [alice],
      bookings =
        [\<lparr>bk_id = 10, bk_date = ''2024-01-02'', bk_time = ''09:00'', bk_service = ''haircut'',
          bk_userId = 1\<rparr>,
         \<lparr>bk_id = 11, bk_date = ''2023-12-31'', bk_time = ''08:00'', bk_service = ''shave'',
          bk_userId = 2\<rparr>,
         \<lparr>bk_id = 12, bk_date = ''2024-01-01'', bk_time = ''10:00'', bk_service = ''wash'',
          bk_userId = 1\<rparr>]\<rparr>"

section \<open>Properties\<close>

subsection \<open>Store lookups\<close>

lemma User_findOne_Some_iff:
  "(\<exists>u. User_findOne L (Some s) d = Some u) \<longleftrightarrow> s \<in> set (map u_email (users d))"
proof
  assume "\<exists>u. User_findOne L (Some s) d = Some u"
  then obtain u where "find (\<lambda>u. u_email u = s) (users d) = Some u"
    by (auto simp: User_findOne_def)
  then have "u \<in> set (users d) \<and> u_email u = s"
    by (auto simp: find_Some_iff)
  then show "s \<in> set (map u_email (users d))" by auto
next
  assume "s \<in> set (map u_email (users d))"
  then have "find (\<lambda>u. u_email u = s) (users d) \<noteq> None"
    by (auto simp: find_None_iff)
  then show "\<exists>u. User_findOne L (Some s) d = Some u"
    by (auto simp: User_findOne_def)
qed

lemma find_unique:
  "distinct (map f xs) \<Longrightarrow> x \<in> set xs \<Longrightarrow> find (\<lambda>y. f y = f x) xs = Some x"
  by (induction xs) auto

lemma owner_only:
  "b \<in> set (Booking_find_sorted A d) \<longleftrightarrow> b \<in> set (bookings d) \<and> bk_userId b = A"
  by (auto simp: Booking_find_sorted_def)

lemma sorted_date_time: "sorted_wrt date_time_le (Booking_find_sorted A d)"
proof -
  have "sorted (map (\<lambda>b. (bk_date b, bk_time b)) (Booking_find_sorted A d))"
    unfolding Booking_find_sorted_def by (rule sorted_sort_key)
  then have "sorted_wrt (\<lambda>a b. (bk_date a, bk_time a) \<le> (bk_date b, bk_time b))
               (Booking_find_sorted A d)"
    by (simp add: sorted_map)
  then show ?thesis
    by (rule sorted_wrt_mono_rel [rotated]) (auto simp: date_time_le_def less_eq_prod_def)
qed

lemma sample_bookings_of_alice:
  "Booking_find_sorted (p_userId alice_payload) sample_db =
     [\<lparr>bk_id = 12, bk_date = ''2024-01-01'', bk_time = ''10:00'', bk_service = ''wash'',
       bk_userId = 1\<rparr>,
      \<lparr>bk_id = 10, bk_date = ''2024-01-02'', bk_time = ''09:00'', bk_service = ''haircut'',
       bk_userId = 1\<rparr>]"
  by (simp add: Booking_find_sorted_def sample_db_def alice_payload_def less_eq_prod_def)

subsection \<open>Listing bookings\<close>

text \<open>
  C1. GET /bookings with a valid token (one the header yields and the library verifies
  to the identity \<open>u\<close>) answers 200 with a list that holds only bookings whose owner is
  the token's account, and the list is non-decreasing in (date, time), compared
  lexicographically. The store is left as it was.
\<close>

theorem list_bookings_owner_sorted:
  assumes "extract_token (authorization req) = Some t"
    and "jwt_verify L t S (now e) = Inr u"
  shows "serve L S e GetBookings req d =
           (\<lparr>status = 200, content = BookingList (Booking_find_sorted (p_userId u) d)\<rparr>, d)
         \<and> (\<forall>b \<in> set (Booking_find_sorted (p_userId u) d). bk_userId b = p_userId u)
         \<and> sorted_wrt date_time_le (Booking_find_sorted (p_userId u) d)"
  using assms
  by (simp add: serve_def authenticateToken_def list_bookings_def the_user_def catch_500_def
      owner_only sorted_date_time)

theorem list_bookings_owner_sorted_witness:
  "extract_token (authorization (with_header (Some ''Bearer alice.jwt''))) = Some ''alice.jwt''
   \<and> jwt_verify stub_libs ''alice.jwt'' ''secret'' (now env0) = Inr alice_payload
   \<and> serve stub_libs ''secret'' env0 GetBookings (with_header (Some ''Bearer alice.jwt''))
        sample_db =
       (\<lparr>status = 200,
         content = BookingList
           [\<lparr>bk_id = 12, bk_date = ''2024-01-01'', bk_time = ''10:00'', bk_service = ''wash'',
             bk_userId = 1\<rparr>,
            \<lparr>bk_id = 10, bk_date = ''2024-01-02'', bk_time = ''09:00'',
             bk_service = ''haircut'', bk_userId = 1\<rparr>]\<rparr>, sample_db)"
proof -
  have h: "extract_token (authorization (with_header (Some ''Bearer alice.jwt'')))
             = Some ''alice.jwt''"
    by (simp add: with_header_def bare_request_def extract_token_def)
  have v: "jwt_verify stub_libs ''alice.jwt'' ''secret'' (now env0) = Inr alice_payload"
    by (simp add: stub_libs_def)
  from list_bookings_owner_sorted [OF h v, of sample_db] h v show ?thesis
    by (simp add: sample_bookings_of_alice)
qed

subsection \<open>Signing up\<close>

text \<open>
  C2. A signup whose email is that of a stored account is answered 409, and the store
  afterwards is the store before: no record is added and none is changed.
\<close>

theorem signup_existing_email_conflict:
  assumes "b_email (body req) = Some s"
    and "\<exists>u \<in> set (users d). u_email u = s"
  shows "signup L e req d =
           (\<lparr>status = 409, content = Message ''User already exists with this email.''\<rparr>, d)"
proof -
  from assms(2) have "s \<in> set (map u_email (users d))" by auto
  then obtain u where "User_findOne L (Some s) d = Some u"
    using User_findOne_Some_iff by blast
  with assms(1) show ?thesis
    by (simp add: signup_def signup_try_def catch_500_def)
qed

theorem signup_existing_email_conflict_witness:
  "b_email (body (credentials (Some ''Mallory'') (Some ''a@x.com'') (Some ''pw2'')))
     = Some ''a@x.com''
   \<and> (\<exists>u \<in> set (users sample_db). u_email u = ''a@x.com'')
   \<and> signup stub_libs env0 (credentials (Some ''Mallory'') (Some ''a@x.com'') (Some ''pw2''))
        sample_db =
       (\<lparr>status = 409, content = Message ''User already exists with this email.''\<rparr>,
        sample_db)"
proof -
  have m: "b_email (body (credentials (Some ''Mallory'') (Some ''a@x.com'') (Some ''pw2'')))
             = Some ''a@x.com''"
    by (simp add: credentials_def bare_request_def no_fields_def)
  have x: "\<exists>u \<in> set (users sample_db). u_email u = ''a@x.com''"
    by (simp add: sample_db_def alice_def)
  from signup_existing_email_conflict [OF m x] m x show ?thesis
    by simp
qed

text \<open>
  A body that lacks a required field, with no account found under its email, makes the
  \<open>try\<close> block throw: \<open>bcrypt.hash\<close> refuses an absent password, and otherwise the
  store's required-field check refuses the document.
\<close>

lemma signup_try_lacking:
  assumes "lacks_required_field req" and "unknown_email L req d"
  shows "signup_try L e req d = Inl IllegalArguments
         \<or> signup_try L e req d = Inl ValidationError"
  using assms
  by (auto simp: lacks_required_field_def unknown_email_def signup_try_def
      bcrypt_hash_js_def User_create_def split: option.splits)

text \<open>
  C8, as stated, fails: a signup body without a password whose email is that of a stored
  account is answered 409, not 500, because the lookup by email comes before the hashing
  and before the store's required-field check.
\<close>

theorem signup_missing_field_counterexample:
  "lacks_required_field (credentials (Some ''Mallory'') (Some ''a@x.com'') None)
   \<and> signup stub_libs env0 (credentials (Some ''Mallory'') (Some ''a@x.com'') None) sample_db =
       (\<lparr>status = 409, content = Message ''User already exists with this email.''\<rparr>,
        sample_db)
   \<and> status (fst (signup stub_libs env0
        (credentials (Some ''Mallory'') (Some ''a@x.com'') None) sample_db)) \<noteq> 500"
  by (simp add: lacks_required_field_def credentials_def bare_request_def no_fields_def
      signup_def signup_try_def catch_500_def User_findOne_def sample_db_def alice_def)

text \<open>
  C8, amended. For every POST /signup request whose body lacks a required field (for
  example, password absent), and for whose email the lookup finds no stored account, the
  handler responds with status 500 and the generic internal-error message. The request
  gets no 400-class validation response, because the failure surfaces only as an
  exception, from hashing or from the store's required-field check, caught by the
  handler's catch-all.
\<close>

theorem signup_missing_field:
  assumes "lacks_required_field req" and "unknown_email L req d"
  shows "signup L e req d =
           (\<lparr>status = 500, content = Message ''Internal server error.''\<rparr>, d)
         \<and> \<not> (400 \<le> status (fst (signup L e req d)) \<and> status (fst (signup L e req d)) < 500)
         \<and> (signup_try L e req d = Inl IllegalArguments
             \<or> signup_try L e req d = Inl ValidationError)"
proof -
  from signup_try_lacking [OF assms]
  have t: "signup_try L e req d = Inl IllegalArguments
           \<or> signup_try L e req d = Inl ValidationError" .
  then have "signup L e req d = (internal_error, d)"
    by (auto simp: signup_def catch_500_def)
  with t show ?thesis by (simp add: internal_error_def)
qed

theorem signup_missing_field_witness:
  "lacks_required_field (credentials (Some ''Bob'') (Some ''b@x.com'') None)
   \<and> unknown_email stub_libs (credentials (Some ''Bob'') (Some ''b@x.com'') None) sample_db
   \<and> signup_try stub_libs env0 (credentials (Some ''Bob'') (Some ''b@x.com'') None) sample_db
       = Inl IllegalArguments
   \<and> signup stub_libs env0 (credentials (Some ''Bob'') (Some ''b@x.com'') None) sample_db =
       (\<lparr>status = 500, content = Message ''Internal server error.''\<rparr>, sample_db)"
proof -
  have l: "lacks_required_field (credentials (Some ''Bob'') (Some ''b@x.com'') None)"
    by (simp add: lacks_required_field_def credentials_def bare_request_def no_fields_def)
  have k: "unknown_email stub_libs (credentials (Some ''Bob'') (Some ''b@x.com'') None) sample_db"
    by (simp add: unknown_email_def credentials_def bare_request_def no_fields_def
        User_findOne_def sample_db_def alice_def)
  have h: "signup_try stub_libs env0 (credentials (Some ''Bob'') (Some ''b@x.com'') None)
             sample_db = Inl IllegalArguments"
    by (simp add: signup_try_def bcrypt_hash_js_def credentials_def bare_request_def
        no_fields_def User_findOne_def sample_db_def alice_def)
  from signup_missing_field [OF l k, of env0] l k h show ?thesis
    by simp
qed

subsection \<open>Signing in\<close>

text \<open>
  C5, as stated, fails: a signin that carries no password is answered 401 when its email
  is unknown, but 500 when its email is known (\<open>bcrypt.compare\<close> throws on the absent
  password and the catch-all answers). The two causes are told apart by the status.
\<close>

theorem signin_failures_counterexample:
  "unknown_email stub_libs (credentials None (Some ''b@x.com'') None) sample_db
   \<and> signin stub_libs ''secret'' env0 (credentials None (Some ''b@x.com'') None) sample_db =
       (\<lparr>status = 401, content = Message ''Invalid credentials.''\<rparr>, sample_db)
   \<and> incorrect_password stub_libs (credentials None (Some ''a@x.com'') None) sample_db
   \<and> signin stub_libs ''secret'' env0 (credentials None (Some ''a@x.com'') None) sample_db =
       (\<lparr>status = 500, content = Message ''Internal server error.''\<rparr>, sample_db)"
  by (simp add: unknown_email_def incorrect_password_def signin_def signin_try_def
      catch_500_def bcrypt_compare_js_def internal_error_def User_findOne_def
      credentials_def bare_request_def no_fields_def sample_db_def alice_def)

text \<open>
  C5, amended. For every signin request with either an unknown email or a known email
  paired with a password string that is incorrect, the response has status 401, and the
  two failure causes produce the very same response (shape and message), so an observer
  of the response cannot tell which cause occurred.
\<close>

theorem signin_failures_indistinguishable:
  assumes "unknown_email L req d \<or> wrong_password_string L req d"
  shows "signin L S e req d =
           (\<lparr>status = 401, content = Message ''Invalid credentials.''\<rparr>, d)"
  using assms
  by (auto simp: unknown_email_def wrong_password_string_def signin_def signin_try_def
      catch_500_def bcrypt_compare_js_def split: option.splits)

theorem signin_failures_indistinguishable_witness:
  "unknown_email stub_libs (credentials None (Some ''b@x.com'') (Some ''pw1'')) sample_db
   \<and> wrong_password_string stub_libs (credentials None (Some ''a@x.com'') (Some ''wrong''))
        sample_db
   \<and> signin stub_libs ''secret'' env0 (credentials None (Some ''b@x.com'') (Some ''pw1''))
        sample_db =
       (\<lparr>status = 401, content = Message ''Invalid credentials.''\<rparr>, sample_db)
   \<and> signin stub_libs ''secret'' env0 (credentials None (Some ''a@x.com'') (Some ''wrong''))
        sample_db =
       (\<lparr>status = 401, content = Message ''Invalid credentials.''\<rparr>, sample_db)"
proof -
  have k: "unknown_email stub_libs (credentials None (Some ''b@x.com'') (Some ''pw1'')) sample_db"
    by (simp add: unknown_email_def credentials_def bare_request_def no_fields_def
        User_findOne_def sample_db_def alice_def)
  have w: "wrong_password_string stub_libs
             (credentials None (Some ''a@x.com'') (Some ''wrong'')) sample_db"
    by (simp add: wrong_password_string_def credentials_def bare_request_def no_fields_def
        User_findOne_def sample_db_def alice_def stub_libs_def)
  from signin_failures_indistinguishable [OF disjI1 [OF k], of "''secret''" env0]
       signin_failures_indistinguishable [OF disjI2 [OF w], of "''secret''" env0]
       k w
  show ?thesis by simp
qed

subsection \<open>The stores the server can reach keep emails unique\<close>

lemma User_create_unique:
  "unique_emails d \<Longrightarrow> User_create i a m h d = Inr (u, d') \<Longrightarrow> unique_emails d'"
  by (auto simp: User_create_def unique_emails_def Let_def split: option.splits if_splits)

lemma signup_unique: "unique_emails d \<Longrightarrow> unique_emails (snd (signup L e req d))"
  by (auto simp: signup_def signup_try_def catch_500_def bcrypt_hash_js_def Let_def
      split: option.splits sum.splits dest: User_create_unique)

lemma Booking_create_users:
  "Booking_create i a b c u d = Inr (bk, d') \<Longrightarrow> users d' = users d"
  by (auto simp: Booking_create_def Let_def split: option.splits if_splits)

lemma handler_unique:
  assumes "unique_emails d"
  shows "unique_emails (snd (handler L S e r req d))"
proof (cases r)
  case PostSignup
  with assms show ?thesis by (simp add: signup_unique)
next
  case PostSignin
  with assms show ?thesis
    by (simp add: signin_def signin_try_def catch_500_def Let_def
        split: option.splits sum.splits)
next
  case GetFetchAccountName
  with assms show ?thesis
    by (simp add: fetch_account_name_def catch_500_def split: sum.splits)
next
  case PostBookings
  have "users (snd (create_booking e req d)) = users d"
    by (auto simp: create_booking_def catch_500_def Let_def
        split: sum.splits dest: Booking_create_users)
  with assms PostBookings show ?thesis by (simp add: unique_emails_def)
next
  case GetBookings
  with assms show ?thesis
    by (simp add: list_bookings_def catch_500_def split: sum.splits)
qed

lemma serve_unique: "unique_emails d \<Longrightarrow> unique_emails (snd (serve L S e r req d))"
  by (simp add: serve_def authenticateToken_def handler_unique split: option.splits sum.splits)

lemma reachable_unique: "reachable L S d \<Longrightarrow> unique_emails d"
proof (induction rule: reachable.induct)
  case start
  show ?case by (simp add: empty_db_def unique_emails_def)
next
  case (step d req e r)
  then show ?case by (simp add: serve_unique)
qed

text \<open>
  Without a signing secret no signin succeeds: \<open>jwt.sign\<close> throws and the catch-all
  answers 500.
\<close>

lemma signin_without_secret:
  "status (fst (signin L [] e req d)) \<noteq> 200"
  by (simp add: signin_def signin_try_def catch_500_def jwt_sign_js_def internal_error_def
      Let_def split: option.splits sum.splits)

text \<open>
  C4. On a server started with a signing secret (\<open>JWT_SECRET\<close> set and not empty): for
  every account in a store the server can reach, a signin carrying that account's email
  and a password that its stored hash verifies succeeds (status 200), and the token
  returned is the one signed over exactly the account's id, email and name, with a
  lifetime of one hour. The store is unchanged.
\<close>

theorem signin_token_identity:
  assumes "S \<noteq> []" and "reachable L S d" and "u \<in> set (users d)"
    and "b_email (body req) = Some (u_email u)" and "b_password (body req) = Some p"
    and "bcrypt_compare L p (u_password u)"
  shows "signin L S e req d =
           (\<lparr>status = 200,
             content = SignedIn ''Sign-in successful!''
               (jwt_sign L \<lparr>p_userId = u_id u, p_email = u_email u,
                            p_accountName = u_accountName u\<rparr> S expiresIn (now e))\<rparr>, d)"
proof -
  have "User_findOne L (Some (u_email u)) d = Some u"
    using reachable_unique [OF assms(2)] assms(3)
    by (simp add: User_findOne_def unique_emails_def find_unique)
  with assms(1) assms(4-6) show ?thesis
    by (simp add: signin_def signin_try_def catch_500_def bcrypt_compare_js_def
        jwt_sign_js_def)
qed

lemma sample_signup:
  "snd (serve stub_libs ''secret'' env0 PostSignup
          (credentials (Some ''Alice'') (Some ''a@x.com'') (Some ''pw1'')) empty_db)
     = \<lparr>users = [alice], bookings = []\<rparr>"
  by (simp add: serve_def signup_def signup_try_def catch_500_def bcrypt_hash_js_def
      User_findOne_def User_create_def credentials_def bare_request_def no_fields_def
      empty_db_def stub_libs_def env0_def alice_def Let_def)

theorem signin_token_identity_witness:
  "''secret'' \<noteq> []
   \<and> reachable stub_libs ''secret'' \<lparr>users = [alice], bookings = []\<rparr>
   \<and> alice \<in> set (users \<lparr>users = [alice], bookings = []\<rparr>)
   \<and> b_email (body (credentials None (Some ''a@x.com'') (Some ''pw1''))) = Some (u_email alice)
   \<and> b_password (body (credentials None (Some ''a@x.com'') (Some ''pw1''))) = Some ''pw1''
   \<and> bcrypt_compare stub_libs ''pw1'' (u_password alice)
   \<and> signin stub_libs ''secret'' env0 (credentials None (Some ''a@x.com'') (Some ''pw1''))
        \<lparr>users = [alice], bookings = []\<rparr> =
       (\<lparr>status = 200,
         content = SignedIn ''Sign-in successful!''
           (jwt_sign stub_libs
              \<lparr>p_userId = 1, p_email = ''a@x.com'', p_accountName = ''Alice''\<rparr>
              ''secret'' 3600 1000)\<rparr>,
        \<lparr>users = [alice], bookings = []\<rparr>)"
proof -
  have "reachable stub_libs ''secret''
          (snd (serve stub_libs ''secret'' env0 PostSignup
             (credentials (Some ''Alice'') (Some ''a@x.com'') (Some ''pw1'')) empty_db))"
    by (rule reachable.step [OF reachable.start])
       (simp add: credentials_def bare_request_def)
  then have r: "reachable stub_libs ''secret'' \<lparr>users = [alice], bookings = []\<rparr>"
    by (simp only: sample_signup)
  have m: "alice \<in> set (users \<lparr>users = [alice], bookings = []\<rparr>)"
    by simp
  have a: "b_email (body (credentials None (Some ''a@x.com'') (Some ''pw1'')))
             = Some (u_email alice)"
    by (simp add: credentials_def bare_request_def no_fields_def alice_def)
  have b: "b_password (body (credentials None (Some ''a@x.com'') (Some ''pw1''))) = Some ''pw1''"
    by (simp add: credentials_def bare_request_def no_fields_def)
  have c: "bcrypt_compare stub_libs ''pw1'' (u_password alice)"
    by (simp add: stub_libs_def alice_def)
  have s: "''secret'' \<noteq> []"
    by simp
  from signin_token_identity [OF s r m a b c, of env0] r m a b c show ?thesis
    by (simp add: alice_def env0_def expiresIn_def)
qed

subsection \<open>Authentication of the protected routes\<close>

lemma split_space_no_space: "CHR '' '' \<notin> set t \<Longrightarrow> split_space t = [t]"
  by (induction t) auto

lemma split_space_first:
  "CHR '' '' \<notin> set w \<Longrightarrow> split_space (w @ CHR '' '' # t) = w # split_space t"
  by (induction w) auto

lemma extract_token_second_piece:
  assumes "CHR '' '' \<notin> set w" and "CHR '' '' \<notin> set t"
    and "rest = [] \<or> (\<exists>x. rest = CHR '' '' # x)"
  shows "extract_token (Some (w @ CHR '' '' # t @ rest)) = Some t"
proof -
  from assms(2,3) have "\<exists>ps. split_space (t @ rest) = t # ps"
    by (auto simp: split_space_no_space split_space_first)
  with assms(1) show ?thesis
    by (auto simp: extract_token_def split_space_first)
qed

lemma extract_token_no_space:
  assumes "h \<noteq> []" and "CHR '' '' \<notin> set h"
  shows "extract_token (Some h) = None"
  using assms by (simp add: extract_token_def split_space_no_space)

lemma split_space_nonempty: "split_space s \<noteq> []"
  by (induction s) (auto split: list.splits)

lemma split_space_two:
  "CHR '' '' \<in> set s \<Longrightarrow> \<exists>p t ps. split_space s = p # t # ps"
proof (induction s)
  case Nil
  then show ?case by simp
next
  case (Cons c cs)
  show ?case
  proof (cases "c = CHR '' ''")
    case True
    with split_space_nonempty [of cs] show ?thesis
      by (cases "split_space cs") auto
  next
    case False
    with Cons obtain p t ps where "split_space cs = p # t # ps" by auto
    with False show ?thesis by simp
  qed
qed

text \<open>
  When the middleware sees no token: the header is absent, or it is non-empty and holds
  no space.
\<close>

lemma extract_token_None_iff:
  "extract_token h = None \<longleftrightarrow>
     h = None \<or> (\<exists>s. h = Some s \<and> s \<noteq> [] \<and> CHR '' '' \<notin> set s)"
proof (cases h)
  case None
  then show ?thesis by (simp add: extract_token_def)
next
  case (Some s)
  show ?thesis
  proof (cases "CHR '' '' \<in> set s")
    case True
    then obtain p t ps where "split_space s = p # t # ps"
      using split_space_two by blast
    with Some True show ?thesis by (auto simp: extract_token_def)
  next
    case False
    then have "split_space s = [s]" by (rule split_space_no_space)
    with Some False show ?thesis by (auto simp: extract_token_def)
  qed
qed

text \<open>
  C3, as stated, fails where the header names no token but is not absent: the empty
  header, and a scheme word followed by a space and nothing else. In both no token is
  present, yet the middleware hands the empty string to verification and the answer is
  403, not 401.
\<close>

theorem authentication_three_way_counterexample:
  "serve stub_libs ''secret'' env0 GetBookings (with_header (Some [])) sample_db =
     (\<lparr>status = 403, content = Message ''Invalid or expired token.''\<rparr>, sample_db)
   \<and> status (fst (serve stub_libs ''secret'' env0 GetBookings (with_header (Some []))
        sample_db)) \<noteq> 401
   \<and> serve stub_libs ''secret'' env0 GetBookings (with_header (Some ''Bearer '')) sample_db =
     (\<lparr>status = 403, content = Message ''Invalid or expired token.''\<rparr>, sample_db)
   \<and> status (fst (serve stub_libs ''secret'' env0 GetBookings (with_header (Some ''Bearer ''))
        sample_db)) \<noteq> 401"
  by (simp add: serve_def authenticateToken_def extract_token_def with_header_def
      bare_request_def stub_libs_def)

text \<open>
  C3, amended. On every protected route authentication splits three ways. If no token is
  present, the header being absent or being non-empty without a space, the answer is
  401. If a token is present, the header holding a non-empty piece after its first space
  (up to the next space, if any), and the library rejects it, whatever the cause
  (malformed, bad signature, expired), the answer is 403 with one and the same generic
  message. If that token is valid, the route's handler runs on the request with the
  token's identity fields bound to \<open>req.user\<close>.
\<close>

theorem authentication_three_way:
  assumes "protected r"
  shows "((authorization req = None
            \<or> (authorization req = Some h \<and> h \<noteq> [] \<and> CHR '' '' \<notin> set h)) \<longrightarrow>
          serve L S e r req d =
            (\<lparr>status = 401, content = Message ''Authentication token required.''\<rparr>, d))
       \<and> (authorization req = Some (w @ CHR '' '' # t @ rest)
            \<and> CHR '' '' \<notin> set w \<and> CHR '' '' \<notin> set t \<and> t \<noteq> []
            \<and> (rest = [] \<or> (\<exists>x. rest = CHR '' '' # x)) \<longrightarrow>
          (jwt_verify L t S (now e) = Inl err \<longrightarrow>
             serve L S e r req d =
               (\<lparr>status = 403, content = Message ''Invalid or expired token.''\<rparr>, d))
          \<and> (jwt_verify L t S (now e) = Inr u \<longrightarrow>
             serve L S e r req d = handler L S e r (req\<lparr>req_user := Some u\<rparr>) d))"
proof (intro conjI impI)
  assume "authorization req = None
          \<or> (authorization req = Some h \<and> h \<noteq> [] \<and> CHR '' '' \<notin> set h)"
  then have "extract_token (authorization req) = None"
  proof
    assume "authorization req = None"
    then show ?thesis by (simp add: extract_token_def)
  next
    assume "authorization req = Some h \<and> h \<noteq> [] \<and> CHR '' '' \<notin> set h"
    then show ?thesis by (simp add: extract_token_no_space)
  qed
  with assms show "serve L S e r req d =
      (\<lparr>status = 401, content = Message ''Authentication token required.''\<rparr>, d)"
    by (simp add: serve_def authenticateToken_def)
next
  assume shape: "authorization req = Some (w @ CHR '' '' # t @ rest)
          \<and> CHR '' '' \<notin> set w \<and> CHR '' '' \<notin> set t \<and> t \<noteq> []
          \<and> (rest = [] \<or> (\<exists>x. rest = CHR '' '' # x))"
    and v: "jwt_verify L t S (now e) = Inl err"
  from shape have "extract_token (authorization req) = Some t"
    by (simp add: extract_token_second_piece)
  with assms v show "serve L S e r req d =
      (\<lparr>status = 403, content = Message ''Invalid or expired token.''\<rparr>, d)"
    by (simp add: serve_def authenticateToken_def)
next
  assume shape: "authorization req = Some (w @ CHR '' '' # t @ rest)
          \<and> CHR '' '' \<notin> set w \<and> CHR '' '' \<notin> set t \<and> t \<noteq> []
          \<and> (rest = [] \<or> (\<exists>x. rest = CHR '' '' # x))"
    and v: "jwt_verify L t S (now e) = Inr u"
  from shape have "extract_token (authorization req) = Some t"
    by (simp add: extract_token_second_piece)
  with assms v show "serve L S e r req d = handler L S e r (req\<lparr>req_user := Some u\<rparr>) d"
    by (simp add: serve_def authenticateToken_def)
qed

theorem authentication_three_way_witness:
  "protected GetBookings
   \<and> authorization (with_header None) = None
   \<and> serve stub_libs ''secret'' env0 GetBookings (with_header None) sample_db =
       (\<lparr>status = 401, content = Message ''Authentication token required.''\<rparr>, sample_db)
   \<and> authorization (with_header (Some ''alice.jwt'')) = Some ''alice.jwt''
   \<and> ''alice.jwt'' \<noteq> [] \<and> CHR '' '' \<notin> set ''alice.jwt''
   \<and> serve stub_libs ''secret'' env0 GetBookings (with_header (Some ''alice.jwt'')) sample_db =
       (\<lparr>status = 401, content = Message ''Authentication token required.''\<rparr>, sample_db)
   \<and> authorization (with_header (Some ''Bearer x.y.z''))
        = Some (''Bearer'' @ CHR '' '' # ''x.y.z'' @ [])
   \<and> CHR '' '' \<notin> set ''Bearer'' \<and> CHR '' '' \<notin> set ''x.y.z'' \<and> ''x.y.z'' \<noteq> []
   \<and> jwt_verify stub_libs ''x.y.z'' ''secret'' (now env0)
        = Inl (JsonWebTokenError ''jwt malformed'')
   \<and> serve stub_libs ''secret'' env0 GetBookings (with_header (Some ''Bearer x.y.z''))
        sample_db =
       (\<lparr>status = 403, content = Message ''Invalid or expired token.''\<rparr>, sample_db)
   \<and> authorization (with_header (Some ''Bearer alice.jwt''))
        = Some (''Bearer'' @ CHR '' '' # ''alice.jwt'' @ [])
   \<and> jwt_verify stub_libs ''alice.jwt'' ''secret'' (now env0) = Inr alice_payload
   \<and> serve stub_libs ''secret'' env0 GetBookings (with_header (Some ''Bearer alice.jwt''))
        sample_db =
       handler stub_libs ''secret'' env0 GetBookings
         ((with_header (Some ''Bearer alice.jwt''))\<lparr>req_user := Some alice_payload\<rparr>) sample_db"
proof -
  have p: "protected GetBookings" by simp
  have n: "authorization (with_header None) = None"
    by (simp add: with_header_def bare_request_def)
  have b: "authorization (with_header (Some ''alice.jwt'')) = Some ''alice.jwt''"
    by (simp add: with_header_def bare_request_def)
  have x: "authorization (with_header (Some ''Bearer x.y.z'')) = Some ''Bearer x.y.z''"
    by (simp add: with_header_def bare_request_def)
  have xe: "jwt_verify stub_libs ''x.y.z'' ''secret'' (now env0)
              = Inl (JsonWebTokenError ''jwt malformed'')"
    by (simp add: stub_libs_def)
  have a: "authorization (with_header (Some ''Bearer alice.jwt'')) = Some ''Bearer alice.jwt''"
    by (simp add: with_header_def bare_request_def)
  have av: "jwt_verify stub_libs ''alice.jwt'' ''secret'' (now env0) = Inr alice_payload"
    by (simp add: stub_libs_def)
  from authentication_three_way
         [OF p, where req = "with_header None" and L = stub_libs and S = "''secret''"
            and e = env0 and d = sample_db]
       authentication_three_way
         [OF p, where req = "with_header (Some ''alice.jwt'')" and h = "''alice.jwt''"
            and L = stub_libs and S = "''secret''" and e = env0 and d = sample_db]
       authentication_three_way
         [OF p, where req = "with_header (Some ''Bearer x.y.z'')" and w = "''Bearer''"
            and t = "''x.y.z''" and rest = "[]" and L = stub_libs and S = "''secret''"
            and e = env0 and d = sample_db
            and err = "JsonWebTokenError ''jwt malformed''"]
       authentication_three_way
         [OF p, where req = "with_header (Some ''Bearer alice.jwt'')" and w = "''Bearer''"
            and t = "''alice.jwt''" and rest = "[]" and L = stub_libs and S = "''secret''"
            and e = env0 and d = sample_db and u = alice_payload]
       p n b x xe a av
  show ?thesis by simp
qed

text \<open>
  C9, as stated, fails twice. The empty header value has no space, yet it is not taken
  for a missing token: \<open>authHeader && ...\<close> yields the empty string itself, which is
  not \<open>null\<close>, so it goes to verification and the answer is 403, not 401. And what is
  verified is not the substring after the first space: of \<open>Bearer alice.jwt x\<close> that
  substring is \<open>alice.jwt x\<close>, which the library rejects, while the request is accepted
  on the piece \<open>alice.jwt\<close>.
\<close>

theorem token_extraction_counterexample:
  "CHR '' '' \<notin> set ([] :: string)
   \<and> serve stub_libs ''secret'' env0 GetFetchAccountName (with_header (Some [])) sample_db =
       (\<lparr>status = 403, content = Message ''Invalid or expired token.''\<rparr>, sample_db)
   \<and> status (fst (serve stub_libs ''secret'' env0 GetFetchAccountName (with_header (Some []))
        sample_db)) \<noteq> 401
   \<and> drop 1 (dropWhile (\<lambda>c. c \<noteq> CHR '' '') ''Bearer alice.jwt x'') = ''alice.jwt x''
   \<and> jwt_verify stub_libs ''alice.jwt x'' ''secret'' (now env0)
        = Inl (JsonWebTokenError ''jwt malformed'')
   \<and> extract_token (Some ''Bearer alice.jwt x'') = Some ''alice.jwt''
   \<and> serve stub_libs ''secret'' env0 GetFetchAccountName
        (with_header (Some ''Bearer alice.jwt x'')) sample_db =
       (\<lparr>status = 200, content = AccountName ''Alice''\<rparr>, sample_db)"
  by (simp add: serve_def authenticateToken_def extract_token_def with_header_def
      bare_request_def stub_libs_def fetch_account_name_def the_user_def catch_500_def
      alice_payload_def)

text \<open>
  C9, amended. Token extraction in the middleware takes the piece of the Authorization
  header between its first and its second space (all that follows the first space when
  there is no second) and does not check the authentication scheme: for every header
  made of a word, a space and a token, that token is what is verified, whatever the word
  (so \<open>Basic\<close> followed by a valid token is accepted); and every non-empty header
  without a space, a bare valid token included, is taken for a missing token and
  answered 401.
\<close>

theorem token_extraction_ignores_scheme:
  "(CHR '' '' \<notin> set w \<and> CHR '' '' \<notin> set t
      \<and> (rest = [] \<or> (\<exists>x. rest = CHR '' '' # x)) \<longrightarrow>
      extract_token (Some (w @ CHR '' '' # t @ rest)) = Some t
      \<and> authenticateToken L S e k
          (req\<lparr>authorization := Some (w @ CHR '' '' # t @ rest)\<rparr>) d =
          (case jwt_verify L t S (now e) of
             Inl err \<Rightarrow> (\<lparr>status = 403, content = Message ''Invalid or expired token.''\<rparr>, d)
           | Inr u \<Rightarrow>
               k (req\<lparr>authorization := Some (w @ CHR '' '' # t @ rest),
                          req_user := Some u\<rparr>) d))
   \<and> (h \<noteq> [] \<and> CHR '' '' \<notin> set h \<longrightarrow>
      extract_token (Some h) = None
      \<and> authenticateToken L S e k (req\<lparr>authorization := Some h\<rparr>) d =
          (\<lparr>status = 401, content = Message ''Authentication token required.''\<rparr>, d))"
  by (simp add: authenticateToken_def extract_token_second_piece extract_token_no_space)

theorem token_extraction_ignores_scheme_witness:
  "CHR '' '' \<notin> set ''Basic'' \<and> CHR '' '' \<notin> set ''alice.jwt''
   \<and> extract_token (Some (''Basic'' @ CHR '' '' # ''alice.jwt'' @ [])) = Some ''alice.jwt''
   \<and> authenticateToken stub_libs ''secret'' env0 fetch_account_name
        (bare_request\<lparr>authorization := Some (''Basic'' @ CHR '' '' # ''alice.jwt'' @ [])\<rparr>)
        sample_db =
       (\<lparr>status = 200, content = AccountName ''Alice''\<rparr>, sample_db)
   \<and> CHR '' '' \<notin> set ''Bearer''
   \<and> extract_token (Some (''Bearer'' @ CHR '' '' # ''alice.jwt'' @ '' x'')) = Some ''alice.jwt''
   \<and> authenticateToken stub_libs ''secret'' env0 fetch_account_name
        (bare_request\<lparr>authorization := Some (''Bearer'' @ CHR '' '' # ''alice.jwt'' @ '' x'')\<rparr>)
        sample_db =
       (\<lparr>status = 200, content = AccountName ''Alice''\<rparr>, sample_db)
   \<and> ''alice.jwt'' \<noteq> []
   \<and> extract_token (Some ''alice.jwt'') = None
   \<and> authenticateToken stub_libs ''secret'' env0 fetch_account_name
        (bare_request\<lparr>authorization := Some ''alice.jwt''\<rparr>) sample_db =
       (\<lparr>status = 401, content = Message ''Authentication token required.''\<rparr>, sample_db)"
  using token_extraction_ignores_scheme
          [where w = "''Basic''" and t = "''alice.jwt''" and rest = "[]" and L = stub_libs
             and S = "''secret''" and e = env0 and k = fetch_account_name
             and req = bare_request and d = sample_db and h = "''alice.jwt''"]
        token_extraction_ignores_scheme
          [where w = "''Bearer''" and t = "''alice.jwt''" and rest = "'' x''" and L = stub_libs
             and S = "''secret''" and e = env0 and k = fetch_account_name
             and req = bare_request and d = sample_db and h = "''alice.jwt''"]
  by (simp add: stub_libs_def alice_payload_def fetch_account_name_def the_user_def
      catch_500_def)

subsection \<open>Fetching the account name\<close>

text \<open>
  C10. GET /fetch-account-name with a valid token answers 200 with the account name that
  the verified token carries. The answer does not depend on the store (the handler reads
  no account: any other store gives the same response), and the store (accounts and
  bookings) is unchanged.
\<close>

theorem fetch_account_name_from_token:
  assumes "extract_token (authorization req) = Some t"
    and "jwt_verify L t S (now e) = Inr u"
  shows "serve L S e GetFetchAccountName req d =
           (\<lparr>status = 200, content = AccountName (p_accountName u)\<rparr>, d)
         \<and> fst (serve L S e GetFetchAccountName req d')
             = fst (serve L S e GetFetchAccountName req d)"
  using assms
  by (simp add: serve_def authenticateToken_def fetch_account_name_def the_user_def
      catch_500_def)

theorem fetch_account_name_from_token_witness:
  "extract_token (authorization (with_header (Some ''Bearer alice.jwt''))) = Some ''alice.jwt''
   \<and> jwt_verify stub_libs ''alice.jwt'' ''secret'' (now env0) = Inr alice_payload
   \<and> serve stub_libs ''secret'' env0 GetFetchAccountName
        (with_header (Some ''Bearer alice.jwt'')) empty_db =
       (\<lparr>status = 200, content = AccountName ''Alice''\<rparr>, empty_db)
   \<and> fst (serve stub_libs ''secret'' env0 GetFetchAccountName
        (with_header (Some ''Bearer alice.jwt'')) sample_db) =
       \<lparr>status = 200, content = AccountName ''Alice''\<rparr>"
proof -
  have h: "extract_token (authorization (with_header (Some ''Bearer alice.jwt'')))
             = Some ''alice.jwt''"
    by (simp add: with_header_def bare_request_def extract_token_def)
  have v: "jwt_verify stub_libs ''alice.jwt'' ''secret'' (now env0) = Inr alice_payload"
    by (simp add: stub_libs_def)
  from fetch_account_name_from_token [OF h v, of empty_db sample_db] h v show ?thesis
    by (simp add: alice_payload_def)
qed

subsection \<open>Token lifetime\<close>

text \<open>
  C6. An issued token carries an absolute expiry exactly one hour (3600 seconds) after
  its issuance; verification accepts it at every time strictly before the expiry and
  rejects it as expired at every time after it. So a token issued at \<open>T\<close> is accepted
  at \<open>T\<close> plus 59 minutes and rejected as expired at \<open>T\<close> plus 61 minutes.
\<close>

theorem token_lifetime_one_hour:
  "t_expiry (issueToken S T ident) = T + 3600
   \<and> (\<forall>c. c < t_expiry (issueToken S T ident) \<longrightarrow>
          verifyToken S c (issueToken S T ident) = Identity ident)
   \<and> (\<forall>c. t_expiry (issueToken S T ident) < c \<longrightarrow>
          verifyToken S c (issueToken S T ident) = Expired)
   \<and> verifyToken S (T + 59 * 60) (issueToken S T ident) = Identity ident
   \<and> verifyToken S (T + 61 * 60) (issueToken S T ident) = Expired"
  by (simp add: issueToken_def verifyToken_def expiresIn_def)

theorem token_lifetime_one_hour_witness:
  "t_expiry (issueToken ''secret'' 1000 alice_payload) = 4600
   \<and> (4599 :: nat) < t_expiry (issueToken ''secret'' 1000 alice_payload)
   \<and> verifyToken ''secret'' 4599 (issueToken ''secret'' 1000 alice_payload)
       = Identity alice_payload
   \<and> t_expiry (issueToken ''secret'' 1000 alice_payload) < (4601 :: nat)
   \<and> verifyToken ''secret'' 4601 (issueToken ''secret'' 1000 alice_payload) = Expired
   \<and> verifyToken ''secret'' (1000 + 59 * 60) (issueToken ''secret'' 1000 alice_payload)
       = Identity alice_payload
   \<and> verifyToken ''secret'' (1000 + 61 * 60) (issueToken ''secret'' 1000 alice_payload)
       = Expired"
  using token_lifetime_one_hour [of "''secret''" 1000 alice_payload]
  by simp

subsection \<open>What signup stores\<close>

text \<open>
  A signup with a fresh email, a non-empty account name and email and a password is
  answered 201 and stores, retrievable by that email, an account whose password field is
  what \<open>bcrypt.hash\<close> returned for the password with ten rounds. What that hash
  verifies is up to the hashing library.
\<close>

lemma find_snoc: "find P xs = None \<Longrightarrow> find P (xs @ [y]) = (if P y then Some y else None)"
  by (induction xs) (auto split: if_splits)

lemma signup_fresh_account_stored:
  assumes "b_accountName (body req) = Some a" and "a \<noteq> []"
    and "b_email (body req) = Some m" and "m \<noteq> []"
    and "b_password (body req) = Some p" and "bcrypt_hash L p 10 (salt e) \<noteq> []"
    and "m \<notin> set (map u_email (users d))"
  shows "fst (signup L e req d) =
           \<lparr>status = 201, content = Created ''Account created successfully!'' (oid e)\<rparr>
         \<and> User_findOne L (Some m) (snd (signup L e req d)) =
             Some \<lparr>u_id = oid e, u_accountName = a, u_email = m,
                   u_password = bcrypt_hash L p 10 (salt e)\<rparr>"
proof -
  have none: "find (\<lambda>u. u_email u = m) (users d) = None"
    using assms(7) by (auto simp: find_None_iff)
  then have "signup L e req d =
      (\<lparr>status = 201, content = Created ''Account created successfully!'' (oid e)\<rparr>,
       d\<lparr>users := users d @ [\<lparr>u_id = oid e, u_accountName = a, u_email = m,
                                u_password = bcrypt_hash L p 10 (salt e)\<rparr>]\<rparr>)"
    using assms
    by (simp add: signup_def signup_try_def catch_500_def bcrypt_hash_js_def User_findOne_def
        User_create_def Let_def)
  with none show ?thesis
    by (simp add: User_findOne_def find_snoc)
qed

end
